theory Spec2Isabelle
  imports Main "HOL-Library.Log_Nat"
begin

section \<open>Python strings over ASCII\<close>

text \<open>
  Raw model outputs, answers and ground truths are Python \<open>str\<close> values. They are
  modelled as \<open>string\<close> (a list of 8-bit characters) and the character classes below are
  the ASCII part of the Python ones; text outside ASCII is outside the model.
\<close>

definition newline :: char where
  "newline = CHR 0x0A"

text \<open>\<open>str.isspace\<close> and the regular expression class \<open>\s\<close> on ASCII.\<close>

definition isspace :: "char \<Rightarrow> bool" where
  "isspace c = (c \<in> set [CHR 0x09, CHR 0x0A, CHR 0x0B, CHR 0x0C, CHR 0x0D,
                           CHR 0x1C, CHR 0x1D, CHR 0x1E, CHR 0x1F, CHR 0x20])"

text \<open>The class \<open>\d\<close> on ASCII.\<close>

definition isdigit :: "char \<Rightarrow> bool" where
  "isdigit c = (c \<in> set ''0123456789'')"

definition isupper :: "char \<Rightarrow> bool" where
  "isupper c = (c \<in> set ''ABCDEFGHIJKLMNOPQRSTUVWXYZ'')"

definition islower :: "char \<Rightarrow> bool" where
  "islower c = (c \<in> set ''abcdefghijklmnopqrstuvwxyz'')"

text \<open>The class \<open>\w\<close> on ASCII: letters, digits and the underscore.\<close>

definition isword :: "char \<Rightarrow> bool" where
  "isword c = (isupper c \<or> islower c \<or> isdigit c \<or> c = CHR ''_'')"

definition lower_char :: "char \<Rightarrow> char" where
  "lower_char c =
     (case map_of (zip ''ABCDEFGHIJKLMNOPQRSTUVWXYZ'' ''abcdefghijklmnopqrstuvwxyz'') c of
        Some l \<Rightarrow> l
      | None \<Rightarrow> c)"

text \<open>\<open>s.lower()\<close>\<close>

definition py_lower :: "string \<Rightarrow> string" where
  "py_lower s = map lower_char s"

text \<open>\<open>s.strip(chars)\<close>, with the set of characters as a predicate, and \<open>s.strip()\<close>.\<close>

definition strip_chars :: "(char \<Rightarrow> bool) \<Rightarrow> string \<Rightarrow> string" where
  "strip_chars P s = rev (dropWhile P (rev (dropWhile P s)))"

definition py_strip :: "string \<Rightarrow> string" where
  "py_strip s = strip_chars isspace s"

text \<open>\<open>s.replace(c, "")\<close> for a single character \<open>c\<close>.\<close>

definition remove_char :: "char \<Rightarrow> string \<Rightarrow> string" where
  "remove_char c s = filter (\<lambda>d. d \<noteq> c) s"

text \<open>\<open>s.startswith(p)\<close> and \<open>s.endswith(p)\<close>\<close>

definition startswith :: "string \<Rightarrow> string \<Rightarrow> bool" where
  "startswith s p = (take (length p) s = p)"


section \<open>Regular expressions used by the extractor\<close>

text \<open>
  The three patterns of \<open>parsing.py\<close> are built from the combinators below. A matcher takes
  the rest of the subject and a continuation for the rest of the pattern; it returns the
  continuation's result for the first way of matching that the backtracking engine of
  \<open>re\<close> finds (greedy repetition: longest first), or \<open>None\<close>.
\<close>










section \<open>Answer and confidence extraction (parsing.py)\<close>









text \<open>\<open>int(s)\<close> for a string of ASCII digits.\<close>

definition digit_val :: "char \<Rightarrow> int" where
  "digit_val c = (case map_of (zip ''0123456789'' [0, 1, 2, 3, 4, 5, 6, 7, 8, 9]) c of
                    Some d \<Rightarrow> d | None \<Rightarrow> 0)"

definition int_of_digits :: "string \<Rightarrow> int" where
  "int_of_digits ds = foldl (\<lambda>n c. 10 * n + digit_val c) 0 ds"


section \<open>Python floats\<close>

text \<open>
  A Python \<open>float\<close> is an IEEE 754 binary64 number. The finite ones are modelled by their
  exact rational value (the two zeros are one value: they are equal for every operation
  used here), and every operation rounds its exact result to the nearest binary64 number,
  ties to even, as the hardware and the correctly rounded \<open>float(str)\<close> of CPython do.
\<close>

datatype pyfloat = Finite rat | PosInf | NegInf | NaN

datatype py_exn = ValueError | ZeroDivisionError | OverflowError

definition pow2 :: "int \<Rightarrow> rat" where
  "pow2 n = (if 0 \<le> n then 2 ^ nat n else 1 / 2 ^ nat (- n))"

text \<open>For \<open>x > 0\<close>, the exponent \<open>e\<close> with \<open>2^e \<le> x < 2^(e+1)\<close>.\<close>

definition floor_log2 :: "rat \<Rightarrow> int" where
  "floor_log2 x =
     (if 1 \<le> x then bitlen \<lfloor>x\<rfloor> - 1 else - bitlen (\<lceil>1 / x\<rceil> - 1))"

definition round_half_even :: "rat \<Rightarrow> int" where
  "round_half_even y =
     (let f = \<lfloor>y\<rfloor>; d = y - of_int f
      in if d < 1 / 2 then f else if 1 / 2 < d then f + 1 else if even f then f else f + 1)"

text \<open>
  Rounding to binary64: 53 significant bits, the least exponent of the last bit is
  \<open>-1074\<close>, and a rounded magnitude of \<open>2^1024\<close> or more (exponent 1024 or more) is
  an infinity.
\<close>

definition round_double :: "rat \<Rightarrow> pyfloat" where
  "round_double x =
     (if x = 0 then Finite 0
      else let a = \<bar>x\<bar>;
               q = max (floor_log2 a - 52) (- 1074);
               v = of_int (round_half_even (a / pow2 q)) * pow2 q
           in if 0 < v \<and> 1024 \<le> floor_log2 v then (if 0 < x then PosInf else NegInf)
              else Finite (if 0 < x then v else - v))"

text \<open>\<open>a - b\<close>, \<open>a / b\<close>, \<open>abs(a)\<close> and \<open>a < b\<close> on floats.\<close>

fun float_sub :: "pyfloat \<Rightarrow> pyfloat \<Rightarrow> pyfloat" where
  "float_sub (Finite a) (Finite b) = round_double (a - b)"
| "float_sub NaN _ = NaN"
| "float_sub _ NaN = NaN"
| "float_sub PosInf PosInf = NaN"
| "float_sub NegInf NegInf = NaN"
| "float_sub PosInf _ = PosInf"
| "float_sub NegInf _ = NegInf"
| "float_sub (Finite a) PosInf = NegInf"
| "float_sub (Finite a) NegInf = PosInf"

fun is_zero :: "pyfloat \<Rightarrow> bool" where
  "is_zero (Finite b) = (b = 0)"
| "is_zero _ = False"

fun is_inf :: "pyfloat \<Rightarrow> bool" where
  "is_inf PosInf = True"
| "is_inf NegInf = True"
| "is_inf _ = False"

fun float_neg :: "pyfloat \<Rightarrow> pyfloat" where
  "float_neg (Finite a) = Finite (- a)"
| "float_neg PosInf = NegInf"
| "float_neg NegInf = PosInf"
| "float_neg NaN = NaN"

fun float_div :: "pyfloat \<Rightarrow> pyfloat \<Rightarrow> py_exn + pyfloat" where
  "float_div a (Finite b) =
     (if b = 0 then Inl ZeroDivisionError
      else Inr (case a of
                  Finite x \<Rightarrow> round_double (x / b)
                | NaN \<Rightarrow> NaN
                | _ \<Rightarrow> (if 0 < b then a else float_neg a)))"
| "float_div a NaN = Inr NaN"
| "float_div a b =
     Inr (case a of Finite x \<Rightarrow> Finite 0 | _ \<Rightarrow> NaN)"

fun float_abs :: "pyfloat \<Rightarrow> pyfloat" where
  "float_abs (Finite a) = Finite \<bar>a\<bar>"
| "float_abs PosInf = PosInf"
| "float_abs NegInf = PosInf"
| "float_abs NaN = NaN"

fun float_lt :: "pyfloat \<Rightarrow> pyfloat \<Rightarrow> bool" where
  "float_lt (Finite a) (Finite b) = (a < b)"
| "float_lt NaN _ = False"
| "float_lt _ NaN = False"
| "float_lt _ NegInf = False"
| "float_lt PosInf _ = False"
| "float_lt _ _ = True"

subsection \<open>\<open>float(str)\<close>\<close>

text \<open>The whitespace that \<open>float\<close> itself removes around an ASCII string.\<close>

definition c_isspace :: "char \<Rightarrow> bool" where
  "c_isspace c = (c \<in> set [CHR 0x09, CHR 0x0A, CHR 0x0B, CHR 0x0C, CHR 0x0D, CHR 0x20])"

text \<open>An underscore is allowed only between two digits.\<close>

fun underscores_ok :: "char \<Rightarrow> string \<Rightarrow> bool" where
  "underscores_ok prev [] = (prev \<noteq> CHR ''_'')"
| "underscores_ok prev (c # s) =
     ((if c = CHR ''_'' then isdigit prev else (prev = CHR ''_'' \<longrightarrow> isdigit c))
      \<and> underscores_ok c s)"

definition exponent_of :: "string \<Rightarrow> int option" where
  "exponent_of t =
     (let ds = (case t of
                  c # u \<Rightarrow> (if c = CHR ''+'' \<or> c = CHR ''-'' then u else t)
                | [] \<Rightarrow> t)
      in if ds \<noteq> [] \<and> list_all isdigit ds
         then Some (if startswith t ''-'' then - int_of_digits ds else int_of_digits ds)
         else None)"

definition pow10 :: "int \<Rightarrow> rat" where
  "pow10 n = (if 0 \<le> n then 10 ^ nat n else 1 / 10 ^ nat (- n))"

text \<open>
  An unsigned decimal literal: digits with an optional point, at least one digit, and an
  optional exponent; the whole string must be used up.
\<close>

definition parse_decimal :: "string \<Rightarrow> rat option" where
  "parse_decimal s =
     (let ip = takeWhile isdigit s;
          r1 = dropWhile isdigit s;
          fp = (case r1 of c # t \<Rightarrow> (if c = CHR ''.'' then takeWhile isdigit t else []) | [] \<Rightarrow> []);
          r2 = (case r1 of c # t \<Rightarrow> (if c = CHR ''.'' then dropWhile isdigit t else r1) | [] \<Rightarrow> []);
          mant = of_int (int_of_digits (ip @ fp))
      in if ip = [] \<and> fp = [] then None
         else (case r2 of
                 [] \<Rightarrow> Some (mant * pow10 (- int (length fp)))
               | c # t \<Rightarrow>
                   (if c = CHR ''e'' \<or> c = CHR ''E''
                    then (case exponent_of t of
                            Some e \<Rightarrow> Some (mant * pow10 (e - int (length fp)))
                          | None \<Rightarrow> None)
                    else None)))"

definition py_float :: "string \<Rightarrow> py_exn + pyfloat" where
  "py_float s =
     (let t = strip_chars c_isspace s
      in if \<not> underscores_ok (CHR 0x00) t then Inl ValueError
         else let u = remove_char (CHR ''_'') t;
                  neg = startswith u ''-'';
                  body = (if startswith u ''-'' \<or> startswith u ''+'' then tl u else u)
              in if py_lower body = ''inf'' \<or> py_lower body = ''infinity''
                 then Inr (if neg then NegInf else PosInf)
                 else if py_lower body = ''nan'' then Inr NaN
                 else (case parse_decimal body of
                         None \<Rightarrow> Inl ValueError
                       | Some r \<Rightarrow> Inr (round_double (if neg then - r else r))))"

section \<open>Scoring (scoring.py)\<close>

text \<open>The body of the \<open>try\<close> block of \<open>normalize_numeric\<close>.\<close>

definition normalize_numeric_body :: "string \<Rightarrow> py_exn + pyfloat" where
  "normalize_numeric_body v =
     (let cleaned = remove_char (CHR ''%'') (remove_char (CHR ''$'')
                      (remove_char (CHR '','') (py_strip v)))
      in if CHR ''/'' \<in> set cleaned \<and> count_list cleaned (CHR ''/'') = 1
         then (case py_float (py_strip (takeWhile (\<lambda>c. c \<noteq> CHR ''/'') cleaned)) of
                 Inl e \<Rightarrow> Inl e
               | Inr num \<Rightarrow>
                   (case py_float (py_strip (tl (dropWhile (\<lambda>c. c \<noteq> CHR ''/'') cleaned))) of
                      Inl e \<Rightarrow> Inl e
                    | Inr den \<Rightarrow> float_div num den))
         else py_float cleaned)"

text \<open>
  \<open>normalize_numeric\<close>: the handler turns \<open>ValueError\<close> and \<open>ZeroDivisionError\<close> into
  \<open>None\<close>; any other exception would leave the function.
\<close>

definition normalize_numeric :: "string \<Rightarrow> py_exn + pyfloat option" where
  "normalize_numeric v =
     (case normalize_numeric_body v of
        Inr x \<Rightarrow> Inr (Some x)
      | Inl e \<Rightarrow> (if e = ValueError \<or> e = ZeroDivisionError then Inr None else Inl e))"

text \<open>
  \<open>re.sub(r"\s+", " ", text)\<close>: of a run of whitespace only the last character is
  kept, as one space.
\<close>

fun collapse_ws :: "string \<Rightarrow> string" where
  "collapse_ws [] = []"
| "collapse_ws (c # s) =
     (if isspace c
      then (case s of
              d # t \<Rightarrow> (if isspace d then collapse_ws s else CHR '' '' # collapse_ws s)
            | [] \<Rightarrow> [CHR '' ''])
      else c # collapse_ws s)"

definition normalize_text :: "string \<Rightarrow> string" where
  "normalize_text v =
     (let t1 = py_strip (py_lower v);
          t2 = filter (\<lambda>c. isword c \<or> isspace c \<or> c = CHR ''/'' \<or> c = CHR '':'') t1
      in py_strip (collapse_ws t2))"

record score =
  is_correct :: bool
  is_unknown :: bool
  match_type :: string

definition refusals :: "string list" where
  "refusals = [''unknown'', ''i don't know'', ''cannot determine'']"

definition score_answer :: "string option \<Rightarrow> string \<Rightarrow> string \<Rightarrow> py_exn + score" where
  "score_answer parsed_answer ground_truth answer_type =
     (case parsed_answer of
        None \<Rightarrow> Inr \<lparr>is_correct = False, is_unknown = False, match_type = ''parse_failure''\<rparr>
      | Some pa \<Rightarrow>
          (let normalized = py_lower (py_strip pa)
           in if normalized \<in> set refusals
              then Inr \<lparr>is_correct = False, is_unknown = True, match_type = ''unknown''\<rparr>
              else if answer_type = ''numeric''
              then (case normalize_numeric pa of
                      Inl e \<Rightarrow> Inl e
                    | Inr parsed_num \<Rightarrow>
                        (case normalize_numeric ground_truth of
                           Inl e \<Rightarrow> Inl e
                         | Inr truth_num \<Rightarrow>
                             (case (parsed_num, truth_num) of
                                (Some p, Some t) \<Rightarrow>
                                  Inr \<lparr>is_correct =
                                         float_lt (float_abs (float_sub p t))
                                           (round_double (5 / 1000)),
                                       is_unknown = False, match_type = ''numeric''\<rparr>
                              | _ \<Rightarrow>
                                  Inr \<lparr>is_correct =
                                         (normalize_text pa = normalize_text ground_truth),
                                       is_unknown = False, match_type = ''text_fallback''\<rparr>)))
              else Inr \<lparr>is_correct = (normalize_text pa = normalize_text ground_truth),
                        is_unknown = False, match_type = ''text''\<rparr>))"

section \<open>Stores and the resume index (utils.py)\<close>

record question =
  q_id :: string
  q_category :: string
  q_question :: string
  q_answer :: string
  q_answer_type :: string
  q_difficulty :: string

text \<open>A work item's key: question id, prompt name, temperature, run index.\<close>

type_synonym key = "string \<times> string \<times> rat \<times> int"

record generation =
  gen_question_id :: string
  gen_prompt_name :: string
  gen_temperature :: rat
  gen_run_index :: int
  gen_model :: string
  gen_prompt_text :: string
  gen_raw_output :: string
  gen_timestamp :: string

definition key_of :: "generation \<Rightarrow> key" where
  "key_of r = (gen_question_id r, gen_prompt_name r, gen_temperature r, gen_run_index r)"

text \<open>
  The raw store is the list of the records of the output file, in file order; a missing
  file reads as the empty list. \<open>get_completed_keys\<close> adds the key of each record to a
  set that starts empty.
\<close>

definition get_completed_keys :: "generation list \<Rightarrow> key set" where
  "get_completed_keys store = fold (\<lambda>r completed. insert (key_of r) completed) store {}"

text \<open>\<open>s.replace(old, new)\<close> for a non-empty \<open>old\<close>.\<close>

fun replace_str :: "string \<Rightarrow> string \<Rightarrow> string \<Rightarrow> string" where
  "replace_str old new [] = []"
| "replace_str old new (c # s) =
     (if old \<noteq> [] \<and> take (length old) (c # s) = old
      then new @ replace_str old new (drop (length old - 1) s)
      else c # replace_str old new s)"

definition build_prompt :: "string \<Rightarrow> string \<Rightarrow> string" where
  "build_prompt template question_text =
     replace_str ''{{QUESTION}}'' question_text template
       @ [newline, newline] @ ''Respond in EXACTLY this format:'' @ [newline]
       @ ''CONFIDENCE: <0-100>'' @ [newline]
       @ ''ANSWER: <your answer here>''"

section \<open>The model client (llm_client.py)\<close>

text \<open>
  The service is outside the program: \<open>api n request\<close> is what the \<open>n\<close>-th call of
  \<open>generate_content\<close> made by the process does with that request, a response (whose text
  may be missing) or an exception of class \<open>Exception\<close>, given by its \<open>str\<close>. The
  client's state is the number of calls made so far and the waits of \<open>time.sleep\<close> for the
  backoff, in order. The wait of the rate limiter depends on the wall clock only and
  changes no result; it is left out.
\<close>

datatype api_result = Response "string option" | Raises string

type_synonym request = "string \<times> string \<times> rat \<times> int"

record client =
  cl_model :: string
  cl_retry_max :: int
  cl_retry_backoff :: rat
  cl_calls :: nat
  cl_slept :: "rat list"

text \<open>\<open>str(n)\<close> for an integer.\<close>

fun str_nat :: "nat \<Rightarrow> string" where
  "str_nat n =
     (if n < 10 then [''0123456789'' ! n]
      else str_nat (n div 10) @ [''0123456789'' ! (n mod 10)])"

definition str_int :: "int \<Rightarrow> string" where
  "str_int i = (if i < 0 then CHR ''-'' # str_nat (nat (- i)) else str_nat (nat i))"

text \<open>
  The loop \<open>for attempt in range(1, self.retry_max + 1)\<close> of \<open>generate\<close>, over the attempt
  numbers left. It ends with the text returned, or with \<open>last_error\<close> when the attempts
  are used up.
\<close>

fun generate_loop ::
  "(nat \<Rightarrow> request \<Rightarrow> api_result) \<Rightarrow> request \<Rightarrow> int list \<Rightarrow> string option \<Rightarrow> client
   \<Rightarrow> (string option + string) \<times> client" where
  "generate_loop api req [] last_error c = (Inl last_error, c)"
| "generate_loop api req (attempt # rest) last_error c =
     (case api (cl_calls c) req of
        Response text \<Rightarrow>
          (Inr (case text of Some t \<Rightarrow> t | None \<Rightarrow> []), c\<lparr>cl_calls := Suc (cl_calls c)\<rparr>)
      | Raises e \<Rightarrow>
          generate_loop api req rest (Some e)
            (c\<lparr>cl_calls := Suc (cl_calls c),
               cl_slept := cl_slept c @ [cl_retry_backoff c * 2 ^ nat (attempt - 1)]\<rparr>))"

text \<open>\<open>str(last_error)\<close>\<close>

definition str_error :: "string option \<Rightarrow> string" where
  "str_error e = (case e of None \<Rightarrow> ''None'' | Some m \<Rightarrow> m)"

text \<open>
  \<open>generate\<close>: \<open>Inr\<close> the text returned, \<open>Inl\<close> the message of the \<open>RuntimeError\<close> raised.
\<close>

definition generate ::
  "(nat \<Rightarrow> request \<Rightarrow> api_result) \<Rightarrow> client \<Rightarrow> string \<Rightarrow> rat \<Rightarrow> int \<Rightarrow> (string + string) \<times> client" where
  "generate api c prompt temp max_output_tokens =
     (case generate_loop api (cl_model c, prompt, temp, max_output_tokens)
             [1..cl_retry_max c] None c of
        (Inr text, c') \<Rightarrow> (Inr text, c')
      | (Inl last_error, c') \<Rightarrow>
          (Inl (''API call failed after '' @ str_int (cl_retry_max c) @ '' retries: ''
                 @ str_error last_error), c'))"

section \<open>The experiment runner (run_experiments.py)\<close>

record config =
  cfg_model :: string
  cfg_prompts :: "string list"
  cfg_temperatures :: "rat list"
  cfg_num_runs :: int
  cfg_max_output_tokens :: int
  cfg_retry_max :: int
  cfg_retry_backoff_seconds :: rat

datatype run_error = FileNotFoundError string | EnvironmentError | KeyError string

text \<open>
  Loading the templates: \<open>files\<close> is the prompt directory, from prompt name to the text of
  its file.
\<close>

fun load_templates ::
  "(string \<rightharpoonup> string) \<Rightarrow> string list \<Rightarrow> (string \<rightharpoonup> string) \<Rightarrow> run_error + (string \<rightharpoonup> string)" where
  "load_templates files [] templates = Inr templates"
| "load_templates files (name # names) templates =
     (case files name of
        None \<Rightarrow> Inl (FileNotFoundError name)
      | Some text \<Rightarrow> load_templates files names (templates(name \<mapsto> text)))"

type_synonym work_item = "question \<times> string \<times> rat \<times> int"

definition work_key :: "work_item \<Rightarrow> key" where
  "work_key w = (case w of (question, prompt_name, temp, run_idx) \<Rightarrow>
                   (q_id question, prompt_name, temp, run_idx))"

text \<open>The four nested loops that build the work list.\<close>

definition build_work ::
  "question list \<Rightarrow> string list \<Rightarrow> rat list \<Rightarrow> int \<Rightarrow> key set \<Rightarrow> work_item list" where
  "build_work dataset prompt_names temperatures num_runs completed =
     concat (map (\<lambda>question.
       concat (map (\<lambda>prompt_name.
         concat (map (\<lambda>temp.
           concat (map (\<lambda>run_idx.
             if (q_id question, prompt_name, temp, run_idx) \<notin> completed
             then [(question, prompt_name, temp, run_idx)] else [])
           [1..num_runs]))
         temperatures))
       prompt_names))
     dataset)"

record run_state =
  rs_store :: "generation list"
  rs_errors :: nat
  rs_client :: client

text \<open>
  The main loop. \<open>clock n\<close> is the time stamp the system clock gives for the record
  appended when the store holds \<open>n\<close> records. The template lookup and the prompt are
  outside the \<open>try\<close>: a missing template would end the loop with a \<open>KeyError\<close>.
\<close>

fun main_loop ::
  "config \<Rightarrow> (string \<rightharpoonup> string) \<Rightarrow> (nat \<Rightarrow> request \<Rightarrow> api_result) \<Rightarrow> (nat \<Rightarrow> string)
   \<Rightarrow> work_item list \<Rightarrow> run_state \<Rightarrow> run_error + run_state" where
  "main_loop cfg templates api clock [] st = Inr st"
| "main_loop cfg templates api clock ((question, prompt_name, temp, run_idx) # work) st =
     (case templates prompt_name of
        None \<Rightarrow> Inl (KeyError prompt_name)
      | Some template \<Rightarrow>
          (let full_prompt = build_prompt template (q_question question);
               (res, c) = generate api (rs_client st) full_prompt temp (cfg_max_output_tokens cfg);
               raw_output = (case res of Inr text \<Rightarrow> text | Inl e \<Rightarrow> ''ERROR: '' @ e);
               errors = (case res of Inr text \<Rightarrow> rs_errors st | Inl e \<Rightarrow> rs_errors st + 1);
               rec = \<lparr>gen_question_id = q_id question, gen_prompt_name = prompt_name,
                      gen_temperature = temp, gen_run_index = run_idx,
                      gen_model = cfg_model cfg, gen_prompt_text = full_prompt,
                      gen_raw_output = raw_output,
                      gen_timestamp = clock (length (rs_store st))\<rparr>
           in main_loop cfg templates api clock work
                \<lparr>rs_store = rs_store st @ [rec], rs_errors = errors, rs_client = c\<rparr>))"

record run_result =
  rr_store :: "generation list"
  rr_calls :: nat
  rr_errors :: nat
  rr_api_calls :: nat
  rr_slept :: "rat list"

text \<open>
  \<open>run_experiments\<close>, from the loaded configuration and dataset: \<open>store\<close> is the output
  file before the run, \<open>api_key\<close> says whether the credential is set. The result has the
  output file after the run, the number of work items (the calls of \<open>generate\<close>), the error
  count, and what the client did.
\<close>

definition run_experiments ::
  "config \<Rightarrow> question list \<Rightarrow> (string \<rightharpoonup> string) \<Rightarrow> bool \<Rightarrow> (nat \<Rightarrow> request \<Rightarrow> api_result)
   \<Rightarrow> (nat \<Rightarrow> string) \<Rightarrow> generation list \<Rightarrow> run_error + run_result" where
  "run_experiments cfg dataset files api_key api clock store =
     (case load_templates files (cfg_prompts cfg) Map.empty of
        Inl e \<Rightarrow> Inl e
      | Inr templates \<Rightarrow>
          (let completed = get_completed_keys store;
               work = build_work dataset (cfg_prompts cfg) (cfg_temperatures cfg)
                        (cfg_num_runs cfg) completed
           in if length work = 0
              then Inr \<lparr>rr_store = store, rr_calls = 0, rr_errors = 0, rr_api_calls = 0,
                        rr_slept = []\<rparr>
              else if \<not> api_key then Inl EnvironmentError
              else (case main_loop cfg templates api clock work
                           \<lparr>rs_store = store, rs_errors = 0,
                            rs_client = \<lparr>cl_model = cfg_model cfg,
                                          cl_retry_max = cfg_retry_max cfg,
                                          cl_retry_backoff = cfg_retry_backoff_seconds cfg,
                                          cl_calls = 0, cl_slept = []\<rparr>\<rparr> of
                      Inl e \<Rightarrow> Inl e
                    | Inr st \<Rightarrow>
                        Inr \<lparr>rr_store = rs_store st, rr_calls = length work,
                             rr_errors = rs_errors st,
                             rr_api_calls = cl_calls (rs_client st),
                             rr_slept = cl_slept (rs_client st)\<rparr>)))"

section \<open>The parse stage (parsing.py)\<close>





section \<open>Notions used to state the runner's properties\<close>

text \<open>
  The full grid of keys: the Cartesian product of the question ids, the prompt names, the
  temperatures and the run indices \<open>1..num_runs\<close>, question outermost.
\<close>

definition grid :: "question list \<Rightarrow> string list \<Rightarrow> rat list \<Rightarrow> int \<Rightarrow> key list" where
  "grid dataset prompt_names temperatures num_runs =
     concat (map (\<lambda>question.
       concat (map (\<lambda>prompt_name.
         concat (map (\<lambda>temp.
           map (\<lambda>run_idx. (q_id question, prompt_name, temp, run_idx)) [1..num_runs])
         temperatures))
       prompt_names))
     dataset)"

text \<open>
  The results of the calls of \<open>generate\<close> that the main loop makes for a work list, in
  order, from the client state before the loop.
\<close>

fun call_results ::
  "config \<Rightarrow> (string \<rightharpoonup> string) \<Rightarrow> (nat \<Rightarrow> request \<Rightarrow> api_result) \<Rightarrow> work_item list \<Rightarrow> client
   \<Rightarrow> (string + string) list" where
  "call_results cfg templates api [] c = []"
| "call_results cfg templates api ((question, prompt_name, temp, run_idx) # work) c =
     (case templates prompt_name of
        None \<Rightarrow> []
      | Some template \<Rightarrow>
          (let (res, c') = generate api c (build_prompt template (q_question question)) temp
                             (cfg_max_output_tokens cfg)
           in res # call_results cfg templates api work c'))"

text \<open>The raw output recorded for a result of \<open>generate\<close>.\<close>

definition recorded_output :: "string + string \<Rightarrow> string" where
  "recorded_output res = (case res of Inr text \<Rightarrow> text | Inl e \<Rightarrow> ''ERROR: '' @ e)"

section \<open>Sample data\<close>


definition sample_generation :: generation where
  "sample_generation =
     \<lparr>gen_question_id = ''q1'', gen_prompt_name = ''direct'', gen_temperature = 0,
      gen_run_index = 1, gen_model = ''m'', gen_prompt_text = ''What is 2+2?'',
      gen_raw_output = ''CONFIDENCE: 90'' @ [newline] @ ''ANSWER: 4'',
      gen_timestamp = ''2025-01-01T00:00:00+00:00''\<rparr>"




text \<open>A service that fails twice and then answers, and one that always fails.\<close>

definition flaky_api :: "nat \<Rightarrow> request \<Rightarrow> api_result" where
  "flaky_api n req = (if n < 2 then Raises ''503 unavailable'' else Response (Some ''ANSWER: 4''))"

definition down_api :: "nat \<Rightarrow> request \<Rightarrow> api_result" where
  "down_api n req = Raises (''timeout '' @ str_nat n)"

definition sample_config :: config where
  "sample_config =
     \<lparr>cfg_model = ''gemini-2.0-flash'', cfg_prompts = [''direct''], cfg_temperatures = [0],
      cfg_num_runs = 1, cfg_max_output_tokens = 1024, cfg_retry_max = 3,
      cfg_retry_backoff_seconds = 5\<rparr>"

definition sample_question :: "string \<Rightarrow> question" where
  "sample_question i =
     \<lparr>q_id = i, q_category = ''arithmetic'', q_question = ''What is 2+2?'', q_answer = ''4'',
      q_answer_type = ''numeric'', q_difficulty = ''easy''\<rparr>"

definition sample_files :: "string \<rightharpoonup> string" where
  "sample_files = [''direct'' \<mapsto> ''Q: {{QUESTION}}'']"

definition sample_clock :: "nat \<Rightarrow> string" where
  "sample_clock n = ''2025-01-01T00:00:0'' @ str_nat n"

text \<open>A record left in the store by an earlier run with more runs per cell.\<close>

definition old_generation :: generation where
  "old_generation = sample_generation\<lparr>gen_run_index := 2\<rparr>"



definition sample_dataset :: "question list" where
  "sample_dataset = [sample_question ''q1'', sample_question ''q2'']"

definition first_run :: "run_error + run_result" where
  "first_run =
     run_experiments sample_config sample_dataset sample_files True flaky_api sample_clock []"

section \<open>Properties of the scorer\<close>

lemma refusals_set: "set refusals = {''unknown'', ''i don't know'', ''cannot determine''}"
  by (simp add: refusals_def)

text \<open>
  C5. When the trimmed, lowercased parsed answer is one of the refusal phrases
  \<open>unknown\<close>, \<open>i don't know\<close>, \<open>cannot determine\<close>, \<open>score_answer\<close> returns
  \<open>is_correct = False\<close>, \<open>is_unknown = True\<close>, \<open>match_type = unknown\<close>, whatever the
  answer type and the ground truth are. Conversely, any result with \<open>is_unknown\<close> set comes
  from a present answer whose trimmed, lowercased form is one of these phrases, and has
  \<open>is_correct = False\<close>.
\<close>

theorem score_answer_unknown:
  "(py_lower (py_strip pa) \<in> {''unknown'', ''i don't know'', ''cannot determine''} \<longrightarrow>
      score_answer (Some pa) ground_truth answer_type =
        Inr \<lparr>is_correct = False, is_unknown = True, match_type = ''unknown''\<rparr>)
   \<and> (score_answer a ground_truth answer_type = Inr r \<and> is_unknown r \<longrightarrow>
        (\<exists>pa. a = Some pa \<and>
           py_lower (py_strip pa) \<in> {''unknown'', ''i don't know'', ''cannot determine''})
        \<and> \<not> is_correct r \<and> match_type r = ''unknown'')"
proof (intro conjI impI)
  assume "py_lower (py_strip pa) \<in> {''unknown'', ''i don't know'', ''cannot determine''}"
  then have "py_lower (py_strip pa) \<in> set refusals" by (simp only: refusals_set)
  then show "score_answer (Some pa) ground_truth answer_type =
        Inr \<lparr>is_correct = False, is_unknown = True, match_type = ''unknown''\<rparr>"
    by (simp add: score_answer_def)
next
  assume h: "score_answer a ground_truth answer_type = Inr r \<and> is_unknown r"
  then show "\<exists>pa. a = Some pa \<and>
           py_lower (py_strip pa) \<in> {''unknown'', ''i don't know'', ''cannot determine''}"
    unfolding refusals_set [symmetric]
    by (auto simp: score_answer_def Let_def split: option.splits if_splits sum.splits)
  from h show "\<not> is_correct r"
    by (auto simp: score_answer_def Let_def split: option.splits if_splits sum.splits)
  from h show "match_type r = ''unknown''"
    by (auto simp: score_answer_def Let_def split: option.splits if_splits sum.splits)
qed

theorem score_answer_unknown_witness:
  "py_lower (py_strip '' I Don't Know '') \<in> {''unknown'', ''i don't know'', ''cannot determine''}
   \<and> score_answer (Some '' I Don't Know '') ''42'' ''numeric'' =
        Inr \<lparr>is_correct = False, is_unknown = True, match_type = ''unknown''\<rparr>
   \<and> is_unknown \<lparr>is_correct = False, is_unknown = True, match_type = ''unknown''\<rparr>
   \<and> \<not> is_correct \<lparr>is_correct = False, is_unknown = True, match_type = ''unknown''\<rparr>"
proof -
  have h: "py_lower (py_strip '' I Don't Know '') \<in> {''unknown'', ''i don't know'', ''cannot determine''}"
    by code_simp
  note t = score_answer_unknown [of "'' I Don't Know ''" "''42''" "''numeric''"
      "Some '' I Don't Know ''" "\<lparr>is_correct = False, is_unknown = True, match_type = ''unknown''\<rparr>"]
  from t h have s: "score_answer (Some '' I Don't Know '') ''42'' ''numeric'' =
        Inr \<lparr>is_correct = False, is_unknown = True, match_type = ''unknown''\<rparr>"
    by blast
  have u: "is_unknown \<lparr>is_correct = False, is_unknown = True, match_type = ''unknown''\<rparr>"
    by simp
  from t s u have "\<not> is_correct \<lparr>is_correct = False, is_unknown = True, match_type = ''unknown''\<rparr>"
    by blast
  with h s u show ?thesis by blast
qed

lemma py_float_raises: "py_float s = Inl e \<Longrightarrow> e = ValueError"
  by (auto simp: py_float_def Let_def split: if_splits option.splits)

lemma float_div_raises: "float_div a b = Inl e \<Longrightarrow> e = ZeroDivisionError"
  by (cases b) (auto split: if_splits)

lemma float_div_zero: "float_div a b = Inl ZeroDivisionError \<longleftrightarrow> is_zero b"
  by (cases b) auto

lemma normalize_numeric_body_raises:
  "normalize_numeric_body v = Inl e \<Longrightarrow> e = ValueError \<or> e = ZeroDivisionError"
  by (auto simp: normalize_numeric_body_def Let_def split: if_splits sum.splits
           dest: py_float_raises float_div_raises)

lemma normalize_numeric_returns: "\<exists>r. normalize_numeric v = Inr r"
  by (auto simp: normalize_numeric_def split: sum.splits dest: normalize_numeric_body_raises)

lemma score_answer_returns: "\<exists>r. score_answer a ground_truth answer_type = Inr r"
proof -
  obtain x where x: "normalize_numeric ground_truth = Inr x"
    using normalize_numeric_returns by blast
  show ?thesis
  proof (cases a)
    case None
    then show ?thesis by (simp add: score_answer_def)
  next
    case (Some pa)
    obtain y where y: "normalize_numeric pa = Inr y"
      using normalize_numeric_returns by blast
    show ?thesis using Some x y
      by (simp add: score_answer_def Let_def split: option.splits)
  qed
qed

lemma score_answer_fallback:
  "py_lower (py_strip pa) \<notin> set refusals \<Longrightarrow>
   normalize_numeric pa = Inr None \<or> normalize_numeric ground_truth = Inr None \<Longrightarrow>
   score_answer (Some pa) ground_truth ''numeric'' =
     Inr \<lparr>is_correct = (normalize_text pa = normalize_text ground_truth),
          is_unknown = False, match_type = ''text_fallback''\<rparr>"
  using normalize_numeric_returns [of pa] normalize_numeric_returns [of ground_truth]
  by (auto simp: score_answer_def Let_def split: option.splits)







text \<open>
  C10. \<open>normalize_numeric\<close> returns for every string, a number or \<open>None\<close>: no exception
  leaves it. For \<open>1/0\<close> the division raises \<open>ZeroDivisionError\<close>, which the handler turns
  into \<open>None\<close>. So \<open>score_answer\<close> returns for all arguments, and for a present parsed answer
  that is not a refusal phrase and the answer type \<open>numeric\<close>, when the parsed answer or the
  ground truth is a string on which \<open>normalize_numeric\<close> gives \<open>None\<close>, the result is the
  comparison of the normalized texts with \<open>match_type = text_fallback\<close>.
\<close>

theorem normalize_numeric_total:
  "(\<exists>r. normalize_numeric v = Inr r)
   \<and> normalize_numeric_body ''1/0'' = Inl ZeroDivisionError
   \<and> normalize_numeric ''1/0'' = Inr None
   \<and> (\<exists>r. score_answer a ground_truth answer_type = Inr r)
   \<and> (py_lower (py_strip pa) \<notin> {''unknown'', ''i don't know'', ''cannot determine''}
        \<and> (normalize_numeric pa = Inr None \<or> normalize_numeric ground_truth = Inr None) \<longrightarrow>
      score_answer (Some pa) ground_truth ''numeric'' =
        Inr \<lparr>is_correct = (normalize_text pa = normalize_text ground_truth),
             is_unknown = False, match_type = ''text_fallback''\<rparr>)"
proof -
  have a: "normalize_numeric_body ''1/0'' = Inl ZeroDivisionError"
    by code_simp
  have b: "normalize_numeric ''1/0'' = Inr None"
    by code_simp
  show ?thesis
    unfolding refusals_set [symmetric]
    using normalize_numeric_returns [of v] score_answer_returns [of a ground_truth answer_type]
      score_answer_fallback [of pa ground_truth] a b
    by blast
qed

theorem normalize_numeric_total_witness:
  "py_lower (py_strip ''1/0'') \<notin> {''unknown'', ''i don't know'', ''cannot determine''}
   \<and> normalize_numeric ''1/0'' = Inr None
   \<and> score_answer (Some ''1/0'') ''1/0'' ''numeric'' =
        Inr \<lparr>is_correct = True, is_unknown = False, match_type = ''text_fallback''\<rparr>"
proof -
  have h: "py_lower (py_strip ''1/0'') \<notin> {''unknown'', ''i don't know'', ''cannot determine''}"
    by code_simp
  have e: "normalize_text ''1/0'' = normalize_text ''1/0''"
    by simp
  note t = normalize_numeric_total [of "''1/0''" "Some ''1/0''" "''1/0''" "''numeric''" "''1/0''"]
  from t have n: "normalize_numeric ''1/0'' = Inr None"
    by blast
  from t h n e have "score_answer (Some ''1/0'') ''1/0'' ''numeric'' =
        Inr \<lparr>is_correct = True, is_unknown = False, match_type = ''text_fallback''\<rparr>"
    by simp
  with h n show ?thesis by blast
qed
section \<open>Properties of the parse stage\<close>





section \<open>Properties of the model client\<close>







section \<open>Properties of the runner\<close>

lemma load_templates_dom:
  "load_templates files names acc = Inr t \<Longrightarrow>
   (\<forall>n \<in> set names. t n \<noteq> None) \<and> (\<forall>n. acc n \<noteq> None \<longrightarrow> t n \<noteq> None)"
proof (induction names arbitrary: acc)
  case Nil
  then show ?case by simp
next
  case (Cons name names)
  from Cons.prems obtain tx where f: "files name = Some tx"
    and r: "load_templates files names (acc(name \<mapsto> tx)) = Inr t"
    by (auto split: option.splits)
  from Cons.IH [OF r] show ?case by auto
qed

lemma load_templates_missing:
  "load_templates files names acc = Inl e \<Longrightarrow> \<exists>n. e = FileNotFoundError n"
  by (induction names arbitrary: acc) (auto split: option.splits)

lemma load_templates_present:
  "\<forall>n \<in> set names. files n \<noteq> None \<Longrightarrow> \<exists>t. load_templates files names acc = Inr t"
  by (induction names arbitrary: acc) auto

lemma build_work_prompt:
  "w \<in> set (build_work dataset prompt_names temperatures num_runs completed) \<Longrightarrow>
   fst (snd w) \<in> set prompt_names"
  by (auto simp: build_work_def split: if_splits)

lemma main_loop_records:
  "\<forall>w \<in> set work. templates (fst (snd w)) \<noteq> None \<Longrightarrow>
   \<exists>st'. main_loop cfg templates api clock work st = Inr st'
     \<and> length (call_results cfg templates api work (rs_client st)) = length work
     \<and> map key_of (rs_store st') = map key_of (rs_store st) @ map work_key work
     \<and> map gen_raw_output (rs_store st') =
         map gen_raw_output (rs_store st)
           @ map recorded_output (call_results cfg templates api work (rs_client st))
     \<and> rs_errors st' =
         rs_errors st + length (filter isl (call_results cfg templates api work (rs_client st)))"
proof (induction work arbitrary: st)
  case Nil
  then show ?case by simp
next
  case (Cons w work)
  obtain question prompt_name temp run_idx where w: "w = (question, prompt_name, temp, run_idx)"
    by (cases w) auto
  from Cons.prems w obtain template where t: "templates prompt_name = Some template"
    by auto
  obtain res c where g: "generate api (rs_client st) (build_prompt template (q_question question))
      temp (cfg_max_output_tokens cfg) = (res, c)"
    by (cases "generate api (rs_client st) (build_prompt template (q_question question))
      temp (cfg_max_output_tokens cfg)") auto
  let ?appended = "\<lparr>gen_question_id = q_id question, gen_prompt_name = prompt_name,
                    gen_temperature = temp, gen_run_index = run_idx,
                    gen_model = cfg_model cfg,
                    gen_prompt_text = build_prompt template (q_question question),
                    gen_raw_output = recorded_output res,
                    gen_timestamp = clock (length (rs_store st))\<rparr>"
  let ?st = "\<lparr>rs_store = rs_store st @ [?appended],
               rs_errors = (case res of Inr text \<Rightarrow> rs_errors st | Inl e \<Rightarrow> rs_errors st + 1),
               rs_client = c\<rparr>"
  have step: "main_loop cfg templates api clock (w # work) st =
      main_loop cfg templates api clock work ?st"
    using w t g by (simp add: recorded_output_def)
  have calls: "call_results cfg templates api (w # work) (rs_client st) =
      res # call_results cfg templates api work c"
    using w t g by simp
  from Cons.prems have "\<forall>w \<in> set work. templates (fst (snd w)) \<noteq> None" by simp
  from Cons.IH [OF this, of ?st] obtain st' where
    1: "main_loop cfg templates api clock work ?st = Inr st'"
    and 2: "length (call_results cfg templates api work c) = length work"
    and 3: "map key_of (rs_store st') = map key_of (rs_store ?st) @ map work_key work"
    and 4: "map gen_raw_output (rs_store st') =
         map gen_raw_output (rs_store ?st)
           @ map recorded_output (call_results cfg templates api work c)"
    and 5: "rs_errors st' =
         rs_errors ?st + length (filter isl (call_results cfg templates api work c))"
    by auto
  have k: "key_of ?appended = work_key w"
    by (simp add: key_of_def work_key_def w)
  show ?case
  proof (intro exI conjI)
    show "main_loop cfg templates api clock (w # work) st = Inr st'"
      using step 1 by simp
    show "length (call_results cfg templates api (w # work) (rs_client st)) = length (w # work)"
      using calls 2 by simp
    show "map key_of (rs_store st') = map key_of (rs_store st) @ map work_key (w # work)"
      using 3 k by simp
    show "map gen_raw_output (rs_store st') =
         map gen_raw_output (rs_store st)
           @ map recorded_output (call_results cfg templates api (w # work) (rs_client st))"
      using 4 calls by simp
    show "rs_errors st' = rs_errors st
        + length (filter isl (call_results cfg templates api (w # work) (rs_client st)))"
      using 5 calls by (cases res) simp_all
  qed
qed




lemma fold_insert_keys: "fold (\<lambda>r completed. insert (f r) completed) xs A = A \<union> f ` set xs"
  by (induction xs arbitrary: A) auto

lemma get_completed_keys_set: "get_completed_keys store = set (map key_of store)"
  by (simp add: get_completed_keys_def fold_insert_keys)

lemma build_work_keys:
  "map work_key (build_work dataset prompt_names temperatures num_runs completed) =
     filter (\<lambda>k. k \<notin> completed) (grid dataset prompt_names temperatures num_runs)"
proof -
  have inner: "concat (map (\<lambda>run_idx. map work_key
             (if (q_id question, prompt_name, temp, run_idx) \<notin> completed
              then [(question, prompt_name, temp, run_idx)] else [])) rs) =
      filter (\<lambda>k. k \<notin> completed)
        (map (\<lambda>run_idx. (q_id question, prompt_name, temp, run_idx)) rs)"
    for question prompt_name temp rs
    by (induction rs) (simp_all add: work_key_def)
  show ?thesis
    by (simp add: build_work_def grid_def map_concat filter_concat comp_def inner)
qed

lemma set_grid:
  "set (grid dataset prompt_names temperatures num_runs) =
     {(q_id q, p, t, r) | q p t r.
        q \<in> set dataset \<and> p \<in> set prompt_names \<and> t \<in> set temperatures \<and> 1 \<le> r \<and> r \<le> num_runs}"
  by (fastforce simp: grid_def)

lemma distinct_concat_map:
  "distinct xs \<Longrightarrow> (\<And>x. x \<in> set xs \<Longrightarrow> distinct (f x)) \<Longrightarrow>
   (\<And>x y. x \<in> set xs \<Longrightarrow> y \<in> set xs \<Longrightarrow> x \<noteq> y \<Longrightarrow> set (f x) \<inter> set (f y) = {}) \<Longrightarrow>
   distinct (concat (map f xs))"
proof (induction xs)
  case Nil
  then show ?case by simp
next
  case (Cons x xs)
  have "set (f x) \<inter> set (f y) = {}" if "y \<in> set xs" for y
    using Cons.prems(1) Cons.prems(3) [of x y] that by auto
  moreover have "distinct (concat (map f xs))"
    using Cons by simp
  ultimately show ?case using Cons.prems(2) [of x] by auto
qed

lemma distinct_grid:
  assumes "distinct (map q_id dataset)" "distinct prompt_names" "distinct temperatures"
  shows "distinct (grid dataset prompt_names temperatures num_runs)"
  unfolding grid_def
proof (rule distinct_concat_map)
  show "distinct dataset" using assms(1) by (simp add: distinct_map)
next
  fix q assume "q \<in> set dataset"
  show "distinct (concat (map (\<lambda>prompt_name.
         concat (map (\<lambda>temp.
           map (\<lambda>run_idx. (q_id q, prompt_name, temp, run_idx)) [1..num_runs])
         temperatures)) prompt_names))"
  proof (rule distinct_concat_map [OF assms(2)])
    fix p assume "p \<in> set prompt_names"
    show "distinct (concat (map (\<lambda>temp.
           map (\<lambda>run_idx. (q_id q, p, temp, run_idx)) [1..num_runs]) temperatures))"
      by (rule distinct_concat_map [OF assms(3)]) (auto simp: distinct_map inj_on_def)
  next
    fix p p' :: string assume "p \<noteq> p'"
    then show "set (concat (map (\<lambda>temp.
           map (\<lambda>run_idx. (q_id q, p, temp, run_idx)) [1..num_runs]) temperatures))
         \<inter> set (concat (map (\<lambda>temp.
           map (\<lambda>run_idx. (q_id q, p', temp, run_idx)) [1..num_runs]) temperatures)) = {}"
      by auto
  qed
next
  fix q q' assume "q \<in> set dataset" "q' \<in> set dataset" "q \<noteq> q'"
  with assms(1) have "q_id q \<noteq> q_id q'"
    by (auto simp: distinct_map inj_on_def)
  then show "set (concat (map (\<lambda>prompt_name.
         concat (map (\<lambda>temp.
           map (\<lambda>run_idx. (q_id q, prompt_name, temp, run_idx)) [1..num_runs])
         temperatures)) prompt_names))
       \<inter> set (concat (map (\<lambda>prompt_name.
         concat (map (\<lambda>temp.
           map (\<lambda>run_idx. (q_id q', prompt_name, temp, run_idx)) [1..num_runs])
         temperatures)) prompt_names)) = {}"
    by auto
qed

lemma run_experiments_store:
  assumes "run_experiments cfg dataset files api_key api clock store = Inr res"
  shows "map key_of (rr_store res) =
           map key_of store
             @ filter (\<lambda>k. k \<notin> set (map key_of store))
                 (grid dataset (cfg_prompts cfg) (cfg_temperatures cfg) (cfg_num_runs cfg))"
    and "rr_calls res =
           length (filter (\<lambda>k. k \<notin> set (map key_of store))
                 (grid dataset (cfg_prompts cfg) (cfg_temperatures cfg) (cfg_num_runs cfg)))"
    and "rr_calls res = 0 \<Longrightarrow> rr_api_calls res = 0 \<and> rr_store res = store"
proof -
  let ?work = "build_work dataset (cfg_prompts cfg) (cfg_temperatures cfg)
                        (cfg_num_runs cfg) (get_completed_keys store)"
  let ?missing = "filter (\<lambda>k. k \<notin> set (map key_of store))
                 (grid dataset (cfg_prompts cfg) (cfg_temperatures cfg) (cfg_num_runs cfg))"
  let ?st = "\<lparr>rs_store = store, rs_errors = 0,
               rs_client = \<lparr>cl_model = cfg_model cfg, cl_retry_max = cfg_retry_max cfg,
                             cl_retry_backoff = cfg_retry_backoff_seconds cfg,
                             cl_calls = 0, cl_slept = []\<rparr>\<rparr>"
  have wk: "map work_key ?work = ?missing"
    by (simp only: build_work_keys get_completed_keys_set)
  then have len: "length ?work = length ?missing"
    by (metis length_map)
  from assms obtain templates where
    tm: "load_templates files (cfg_prompts cfg) Map.empty = Inr templates"
    by (auto simp: run_experiments_def split: sum.splits)
  have "\<forall>w \<in> set ?work. templates (fst (snd w)) \<noteq> None"
    using load_templates_dom [OF tm] build_work_prompt by blast
  from main_loop_records [OF this, of cfg api clock ?st] obtain st' where
    ml: "main_loop cfg templates api clock ?work ?st = Inr st'"
    and keys: "map key_of (rs_store st') = map key_of (rs_store ?st) @ map work_key ?work"
    by blast
  show "map key_of (rr_store res) = map key_of store @ ?missing"
  proof (cases "length ?work = 0")
    case True
    with assms tm wk show ?thesis by (auto simp: run_experiments_def Let_def)
  next
    case False
    with assms tm ml have "rr_store res = rs_store st'"
      by (auto simp: run_experiments_def Let_def split: if_splits)
    with keys wk show ?thesis by simp
  qed
  show "rr_calls res = length ?missing"
    using assms tm ml len by (auto simp: run_experiments_def Let_def split: if_splits)
  show "rr_api_calls res = 0 \<and> rr_store res = store" if "rr_calls res = 0"
    using assms tm ml that by (auto simp: run_experiments_def Let_def split: if_splits)
qed

text \<open>
  C1, as stated, fails when the store holds a key that is outside the grid (here a record
  with run index 2, left by an earlier run with two runs per cell, when the configuration
  asks for one): after the completed run the keys of the store are that key and the one
  key of the grid, not exactly the grid.
\<close>

theorem resume_stale_key_counterexample:
  "\<not> isl (run_experiments sample_config [sample_question ''q1''] sample_files True flaky_api
          sample_clock [old_generation])
   \<and> map key_of (rr_store (projr (run_experiments sample_config [sample_question ''q1'']
          sample_files True flaky_api sample_clock [old_generation]))) =
       [(''q1'', ''direct'', 0, 2), (''q1'', ''direct'', 0, 1)]
   \<and> grid [sample_question ''q1''] (cfg_prompts sample_config) (cfg_temperatures sample_config)
         (cfg_num_runs sample_config) = [(''q1'', ''direct'', 0, 1)]
   \<and> set (map key_of (rr_store (projr (run_experiments sample_config [sample_question ''q1'']
          sample_files True flaky_api sample_clock [old_generation])))) \<noteq>
       set (grid [sample_question ''q1''] (cfg_prompts sample_config)
              (cfg_temperatures sample_config) (cfg_num_runs sample_config))"
proof -
  have a: "\<not> isl (run_experiments sample_config [sample_question ''q1''] sample_files True
          flaky_api sample_clock [old_generation])"
    by code_simp
  have b: "map key_of (rr_store (projr (run_experiments sample_config [sample_question ''q1'']
          sample_files True flaky_api sample_clock [old_generation]))) =
       [(''q1'', ''direct'', 0, 2), (''q1'', ''direct'', 0, 1)]"
    by code_simp
  have c: "grid [sample_question ''q1''] (cfg_prompts sample_config)
         (cfg_temperatures sample_config) (cfg_num_runs sample_config) =
       [(''q1'', ''direct'', 0, 1)]"
    by code_simp
  show ?thesis unfolding b c using a by simp
qed

text \<open>
  C1, amended. The resume index is exactly the set of keys of the records in the output
  store. The keys of the work list are the grid (questions, prompt names, temperatures,
  run indices \<open>1..num_runs\<close>, in enumeration order) without the keys in the resume index,
  so work is produced for missing keys only. After a completed run the store holds its
  earlier records followed by one record for each such key, so its key set is the union
  of the keys it held before and the grid. When the question ids, the prompt names and the
  temperatures are each free of duplicates and the store held no key twice and no key
  outside the grid, the key set is exactly the grid and each key appears exactly once.
  A run against a store that already holds every key of the grid makes no call and
  leaves the store as it is; so does any run that follows a completed run.
\<close>

theorem resume_correctness:
  "get_completed_keys store = set (map key_of store)
   \<and> set (grid dataset prompt_names temperatures num_runs) =
       {(q_id q, p, t, r) | q p t r.
          q \<in> set dataset \<and> p \<in> set prompt_names \<and> t \<in> set temperatures
          \<and> 1 \<le> r \<and> r \<le> num_runs}
   \<and> map work_key (build_work dataset prompt_names temperatures num_runs (get_completed_keys store)) =
       filter (\<lambda>k. k \<notin> set (map key_of store)) (grid dataset prompt_names temperatures num_runs)
   \<and> (run_experiments cfg dataset files api_key api clock store = Inr res \<longrightarrow>
        map key_of (rr_store res) =
          map key_of store
            @ filter (\<lambda>k. k \<notin> set (map key_of store))
                (grid dataset (cfg_prompts cfg) (cfg_temperatures cfg) (cfg_num_runs cfg))
        \<and> rr_calls res =
            length (filter (\<lambda>k. k \<notin> set (map key_of store))
                (grid dataset (cfg_prompts cfg) (cfg_temperatures cfg) (cfg_num_runs cfg)))
        \<and> set (map key_of (rr_store res)) =
            set (map key_of store)
              \<union> set (grid dataset (cfg_prompts cfg) (cfg_temperatures cfg) (cfg_num_runs cfg))
        \<and> (distinct (map q_id dataset) \<and> distinct (cfg_prompts cfg)
             \<and> distinct (cfg_temperatures cfg) \<and> distinct (map key_of store)
             \<and> set (map key_of store)
                 \<subseteq> set (grid dataset (cfg_prompts cfg) (cfg_temperatures cfg) (cfg_num_runs cfg))
             \<longrightarrow>
             set (map key_of (rr_store res)) =
               set (grid dataset (cfg_prompts cfg) (cfg_temperatures cfg) (cfg_num_runs cfg))
             \<and> distinct (map key_of (rr_store res)))
        \<and> (set (grid dataset (cfg_prompts cfg) (cfg_temperatures cfg) (cfg_num_runs cfg))
             \<subseteq> set (map key_of store) \<longrightarrow>
             rr_calls res = 0 \<and> rr_api_calls res = 0 \<and> rr_store res = store)
        \<and> run_experiments cfg dataset files api_key' api' clock' (rr_store res) =
            Inr \<lparr>rr_store = rr_store res, rr_calls = 0, rr_errors = 0, rr_api_calls = 0,
                 rr_slept = []\<rparr>)"
proof (intro conjI impI)
  show "get_completed_keys store = set (map key_of store)"
    by (rule get_completed_keys_set)
  show "set (grid dataset prompt_names temperatures num_runs) =
       {(q_id q, p, t, r) | q p t r.
          q \<in> set dataset \<and> p \<in> set prompt_names \<and> t \<in> set temperatures
          \<and> 1 \<le> r \<and> r \<le> num_runs}"
    by (rule set_grid)
  show "map work_key (build_work dataset prompt_names temperatures num_runs
          (get_completed_keys store)) =
       filter (\<lambda>k. k \<notin> set (map key_of store)) (grid dataset prompt_names temperatures num_runs)"
    by (simp only: build_work_keys get_completed_keys_set)
next
  let ?grid = "grid dataset (cfg_prompts cfg) (cfg_temperatures cfg) (cfg_num_runs cfg)"
  let ?missing = "filter (\<lambda>k. k \<notin> set (map key_of store)) ?grid"
  assume run: "run_experiments cfg dataset files api_key api clock store = Inr res"
  note keys = run_experiments_store(1) [OF run]
  note calls = run_experiments_store(2) [OF run]
  show "map key_of (rr_store res) = map key_of store @ ?missing" by (rule keys)
  show "rr_calls res = length ?missing" by (rule calls)
  show u: "set (map key_of (rr_store res)) = set (map key_of store) \<union> set ?grid"
    unfolding keys by auto
  {
    assume d: "distinct (map q_id dataset) \<and> distinct (cfg_prompts cfg)
             \<and> distinct (cfg_temperatures cfg) \<and> distinct (map key_of store)
             \<and> set (map key_of store) \<subseteq> set ?grid"
    then have "distinct ?grid" by (simp add: distinct_grid)
    then have "distinct ?missing" by simp
    with d have "distinct (map key_of store @ ?missing)" by auto
    then show "distinct (map key_of (rr_store res))" unfolding keys .
    from d u show "set (map key_of (rr_store res)) = set ?grid" by auto
  }
  {
    assume "set ?grid \<subseteq> set (map key_of store)"
    then have "?missing = []" by (auto simp: filter_empty_conv)
    with calls have z: "rr_calls res = 0" by simp
    then show "rr_calls res = 0" .
    from run_experiments_store(3) [OF run z]
    show "rr_api_calls res = 0" "rr_store res = store" by simp_all
  }
  from run obtain templates where
    tm: "load_templates files (cfg_prompts cfg) Map.empty = Inr templates"
    by (auto simp: run_experiments_def split: sum.splits)
  have "map work_key (build_work dataset (cfg_prompts cfg) (cfg_temperatures cfg)
          (cfg_num_runs cfg) (get_completed_keys (rr_store res))) =
        filter (\<lambda>k. k \<notin> set (map key_of (rr_store res))) ?grid"
    by (simp only: build_work_keys get_completed_keys_set)
  also have "\<dots> = []" unfolding u by (auto simp: filter_empty_conv)
  finally have "build_work dataset (cfg_prompts cfg) (cfg_temperatures cfg)
          (cfg_num_runs cfg) (get_completed_keys (rr_store res)) = []"
    by simp
  with tm show "run_experiments cfg dataset files api_key' api' clock' (rr_store res) =
            Inr \<lparr>rr_store = rr_store res, rr_calls = 0, rr_errors = 0, rr_api_calls = 0,
                 rr_slept = []\<rparr>"
    by (simp add: run_experiments_def)
qed

theorem resume_correctness_witness:
  "first_run = Inr (projr first_run)
   \<and> distinct (map q_id sample_dataset) \<and> distinct (cfg_prompts sample_config)
   \<and> distinct (cfg_temperatures sample_config) \<and> distinct (map key_of [])
   \<and> set (map key_of [])
       \<subseteq> set (grid sample_dataset (cfg_prompts sample_config) (cfg_temperatures sample_config)
                (cfg_num_runs sample_config))
   \<and> map key_of (rr_store (projr first_run)) =
       [(''q1'', ''direct'', 0, 1), (''q2'', ''direct'', 0, 1)]
   \<and> rr_calls (projr first_run) = 2
   \<and> set (map key_of (rr_store (projr first_run))) =
       set (grid sample_dataset (cfg_prompts sample_config) (cfg_temperatures sample_config)
              (cfg_num_runs sample_config))
   \<and> distinct (map key_of (rr_store (projr first_run)))
   \<and> run_experiments sample_config sample_dataset sample_files True down_api sample_clock
         (rr_store (projr first_run)) =
       Inr \<lparr>rr_store = rr_store (projr first_run), rr_calls = 0, rr_errors = 0,
            rr_api_calls = 0, rr_slept = []\<rparr>
   \<and> set (grid sample_dataset (cfg_prompts sample_config) (cfg_temperatures sample_config)
              (cfg_num_runs sample_config))
       \<subseteq> set (map key_of (rr_store (projr first_run)))"
proof -
  let ?grid = "grid sample_dataset (cfg_prompts sample_config) (cfg_temperatures sample_config)
                 (cfg_num_runs sample_config)"
  have "\<not> isl first_run" by code_simp
  then have h1: "first_run = Inr (projr first_run)" by simp
  then have h1': "run_experiments sample_config sample_dataset sample_files True flaky_api
      sample_clock [] = Inr (projr first_run)"
    by (simp add: first_run_def)
  have h2: "distinct (map q_id sample_dataset) \<and> distinct (cfg_prompts sample_config)
      \<and> distinct (cfg_temperatures sample_config) \<and> distinct (map key_of [])
      \<and> set (map key_of []) \<subseteq> set ?grid"
    by (simp add: sample_dataset_def sample_question_def sample_config_def)
  have g: "?grid = [(''q1'', ''direct'', 0, 1), (''q2'', ''direct'', 0, 1)]"
    by code_simp
  note t1 = resume_correctness [of "[]" sample_dataset "cfg_prompts sample_config"
      "cfg_temperatures sample_config" "cfg_num_runs sample_config" sample_config sample_files
      True flaky_api sample_clock "projr first_run" True down_api sample_clock]
  from t1 h1' have k: "map key_of (rr_store (projr first_run)) =
      map key_of [] @ filter (\<lambda>k. k \<notin> set (map key_of [])) ?grid"
    by blast
  then have k': "map key_of (rr_store (projr first_run)) =
      [(''q1'', ''direct'', 0, 1), (''q2'', ''direct'', 0, 1)]"
    by (simp add: g)
  from t1 h1' have "rr_calls (projr first_run) =
      length (filter (\<lambda>k. k \<notin> set (map key_of [])) ?grid)"
    by blast
  then have c: "rr_calls (projr first_run) = 2" by (simp add: g)
  from t1 h1' h2 have e: "set (map key_of (rr_store (projr first_run))) = set ?grid
      \<and> distinct (map key_of (rr_store (projr first_run)))"
    by blast
  from t1 h1' have again: "run_experiments sample_config sample_dataset sample_files True
      down_api sample_clock (rr_store (projr first_run)) =
       Inr \<lparr>rr_store = rr_store (projr first_run), rr_calls = 0, rr_errors = 0,
            rr_api_calls = 0, rr_slept = []\<rparr>"
    by blast
  from e have h3: "set ?grid \<subseteq> set (map key_of (rr_store (projr first_run)))" by simp
  note t2 = resume_correctness [of "rr_store (projr first_run)" sample_dataset
      "cfg_prompts sample_config" "cfg_temperatures sample_config" "cfg_num_runs sample_config"
      sample_config sample_files True down_api sample_clock
      "\<lparr>rr_store = rr_store (projr first_run), rr_calls = 0, rr_errors = 0,
            rr_api_calls = 0, rr_slept = []\<rparr>" True down_api sample_clock]
  from t2 again h3 have "rr_calls \<lparr>rr_store = rr_store (projr first_run), rr_calls = 0,
      rr_errors = 0, rr_api_calls = 0, rr_slept = []\<rparr> = 0"
    by blast
  from h1 h2 k' c e again h3 show ?thesis by blast
qed


end
